theory Spec2Isabelle
  imports Main
begin

section \<open>Python values\<close>

text \<open>
  A Python \<open>str\<close> is a sequence of Unicode code points, so a string is a list of
  code points here; \<open>ascii\<close> turns an ASCII literal into one. The texts of the
  program that are not ASCII (the verdicts, the notification prefix) are written
  out as code points.
\<close>

type_synonym ustring = "nat list"

definition ascii :: "string \<Rightarrow> ustring" where
  "ascii s = map of_char s"

text \<open>
  The values \<open>response.json()\<close> can return. A float is held as the text
  \<open>repr\<close> gives for it (\<open>repr\<close> is one-to-one on finite floats); a \<open>dict\<close> is an
  association list in insertion order, read through \<open>map_of\<close>.
\<close>

datatype json =
    JNull
  | JBool bool
  | JInt int
  | JFloat ustring
  | JStr ustring
  | JList "json list"
  | JDict "(ustring \<times> json) list"

text \<open>
  The classes of \<open>exceptions.py\<close>, and the built-in and library classes the
  program can meet. An exception value carries its class and the text \<open>str(error)\<close>
  gives.
\<close>

datatype exn_class =
    TokenNotFound
  | APIError
  | APIKeyError
  | TelegramError
  | HomeworkStatusError
  | HomeworkNameNotFoundError
  | TypeError
  | KeyError
  | IndexError
  | AttributeError
  | JSONDecodeError

datatype exn = Exn exn_class ustring

text \<open>
  What the interpreter contributes and the repository does not fix: \<open>repr\<close> of a
  \<open>str\<close> (its quoting and escaping follow the interpreter's Unicode tables) and
  the text of the \<open>TypeError\<close> for a \<open>str\<close> subscripted with a \<open>str\<close> (it
  changed between interpreter versions). Every statement below holds for each
  such interpreter.
\<close>

record interp =
  repr_str :: "ustring \<Rightarrow> ustring"
  str_index_text :: ustring

function digits :: "nat \<Rightarrow> ustring" where
  "digits n = (if n < 10 then [48 + n] else digits (n div 10) @ [48 + n mod 10])"
  by pat_completeness auto
termination
  by (relation "measure id") auto

declare digits.simps [simp del]

definition str_int :: "int \<Rightarrow> ustring" where
  "str_int i = (if i < 0 then 45 # digits (nat (- i)) else digits (nat i))"

fun join :: "ustring \<Rightarrow> ustring list \<Rightarrow> ustring" where
  "join sep [] = []"
| "join sep [x] = x"
| "join sep (x # y # ys) = x @ sep @ join sep (y # ys)"

fun py_repr :: "interp \<Rightarrow> json \<Rightarrow> ustring" where
  "py_repr I JNull = ascii ''None''"
| "py_repr I (JBool b) = (if b then ascii ''True'' else ascii ''False'')"
| "py_repr I (JInt i) = str_int i"
| "py_repr I (JFloat t) = t"
| "py_repr I (JStr s) = repr_str I s"
| "py_repr I (JList xs) =
     ascii ''['' @ join (ascii '', '') (map (py_repr I) xs) @ ascii '']''"
| "py_repr I (JDict kvs) =
     ascii ''{'' @
     join (ascii '', '') (map (\<lambda>(k, v). repr_str I k @ ascii '': '' @ py_repr I v) kvs) @
     ascii ''}''"

text \<open>\<open>str(v)\<close>, which an f-string applies to each field: a \<open>str\<close> is taken as it is.\<close>

definition py_str :: "interp \<Rightarrow> json \<Rightarrow> ustring" where
  "py_str I v = (case v of JStr s \<Rightarrow> s | _ \<Rightarrow> py_repr I v)"

text \<open>A text between single quotes.\<close>

definition quoted :: "ustring \<Rightarrow> ustring" where
  "quoted s = [39] @ s @ [39]"

fun py_type_name :: "json \<Rightarrow> ustring" where
  "py_type_name JNull = ascii ''NoneType''"
| "py_type_name (JBool b) = ascii ''bool''"
| "py_type_name (JInt i) = ascii ''int''"
| "py_type_name (JFloat t) = ascii ''float''"
| "py_type_name (JStr s) = ascii ''str''"
| "py_type_name (JList xs) = ascii ''list''"
| "py_type_name (JDict kvs) = ascii ''dict''"

text \<open>\<open>isinstance(v, dict)\<close> and \<open>isinstance(v, list)\<close>.\<close>

fun is_dict :: "json \<Rightarrow> bool" where
  "is_dict (JDict kvs) = True"
| "is_dict v = False"

fun is_list :: "json \<Rightarrow> bool" where
  "is_list (JList xs) = True"
| "is_list v = False"

text \<open>\<open>v[key]\<close> with a \<open>str\<close> key.\<close>

fun py_getitem :: "interp \<Rightarrow> json \<Rightarrow> ustring \<Rightarrow> exn + json" where
  "py_getitem I (JDict kvs) key =
     (case map_of kvs key of
        None \<Rightarrow> Inl (Exn KeyError (repr_str I key))
      | Some x \<Rightarrow> Inr x)"
| "py_getitem I (JStr s) key = Inl (Exn TypeError (str_index_text I))"
| "py_getitem I (JList xs) key =
     Inl (Exn TypeError (ascii ''list indices must be integers or slices, not str''))"
| "py_getitem I v key =
     Inl (Exn TypeError (quoted (py_type_name v) @ ascii '' object is not subscriptable''))"

text \<open>\<open>v[0]\<close>.\<close>

fun py_first :: "json \<Rightarrow> exn + json" where
  "py_first (JList []) = Inl (Exn IndexError (ascii ''list index out of range''))"
| "py_first (JList (x # xs)) = Inr x"
| "py_first (JStr []) = Inl (Exn IndexError (ascii ''string index out of range''))"
| "py_first (JStr (c # cs)) = Inr (JStr [c])"
| "py_first (JDict kvs) = Inl (Exn KeyError (ascii ''0''))"
| "py_first v =
     Inl (Exn TypeError (quoted (py_type_name v) @ ascii '' object is not subscriptable''))"

text \<open>\<open>v.get(key)\<close>: only a \<open>dict\<close> has the method.\<close>

fun py_get :: "json \<Rightarrow> ustring \<Rightarrow> exn + json" where
  "py_get (JDict kvs) key =
     Inr (case map_of kvs key of None \<Rightarrow> JNull | Some x \<Rightarrow> x)"
| "py_get v key =
     Inl (Exn AttributeError
       (quoted (py_type_name v) @ ascii '' object has no attribute '' @
        quoted (ascii ''get'')))"

text \<open>Truth value of \<open>v\<close>, as \<open>not v\<close> tests it.\<close>

fun py_bool :: "json \<Rightarrow> bool" where
  "py_bool JNull = False"
| "py_bool (JBool b) = b"
| "py_bool (JInt i) = (i \<noteq> 0)"
| "py_bool (JFloat t) = (t \<noteq> ascii ''0.0'' \<and> t \<noteq> ascii ''-0.0'')"
| "py_bool (JStr s) = (s \<noteq> [])"
| "py_bool (JList xs) = (xs \<noteq> [])"
| "py_bool (JDict kvs) = (kvs \<noteq> [])"

text \<open>
  \<open>v in d\<close> and \<open>d[v]\<close> for a \<open>dict\<close> whose keys are \<open>str\<close>: the key is hashed
  first, which a \<open>list\<close> or a \<open>dict\<close> refuses; of the other values only an equal
  \<open>str\<close> is found.
\<close>

fun py_in :: "json \<Rightarrow> (ustring \<times> ustring) list \<Rightarrow> exn + bool" where
  "py_in (JList xs) d = Inl (Exn TypeError (ascii ''unhashable type: '' @ quoted (ascii ''list'')))"
| "py_in (JDict kvs) d = Inl (Exn TypeError (ascii ''unhashable type: '' @ quoted (ascii ''dict'')))"
| "py_in (JStr s) d = Inr (map_of d s \<noteq> None)"
| "py_in v d = Inr False"

fun py_lookup :: "interp \<Rightarrow> (ustring \<times> ustring) list \<Rightarrow> json \<Rightarrow> exn + ustring" where
  "py_lookup I d (JList xs) = Inl (Exn TypeError (ascii ''unhashable type: '' @ quoted (ascii ''list'')))"
| "py_lookup I d (JDict kvs) = Inl (Exn TypeError (ascii ''unhashable type: '' @ quoted (ascii ''dict'')))"
| "py_lookup I d (JStr s) =
     (case map_of d s of
        None \<Rightarrow> Inl (Exn KeyError (repr_str I s))
      | Some x \<Rightarrow> Inr x)"
| "py_lookup I d v = Inl (Exn KeyError (py_repr I v))"

section \<open>homework.py: constants\<close>

definition HOMEWORK_VERDICTS :: "(ustring \<times> ustring) list" where
  "HOMEWORK_VERDICTS =
    [(ascii ''approved'',
      [1056, 1072, 1073, 1086, 1090, 1072, 32, 1087, 1088, 1086, 1074, 1077, 1088,
       1077, 1085, 1072, 58, 32, 1088, 1077, 1074, 1100, 1102, 1077, 1088, 1091, 32,
       1074, 1089, 1105, 32, 1087, 1086, 1085, 1088, 1072, 1074, 1080, 1083, 1086,
       1089, 1100, 46, 32, 1059, 1088, 1072, 33]),
     (ascii ''reviewing'',
      [1056, 1072, 1073, 1086, 1090, 1072, 32, 1074, 1079, 1103, 1090, 1072, 32,
       1085, 1072, 32, 1087, 1088, 1086, 1074, 1077, 1088, 1082, 1091, 32, 1088,
       1077, 1074, 1100, 1102, 1077, 1088, 1086, 1084, 46]),
     (ascii ''rejected'',
      [1056, 1072, 1073, 1086, 1090, 1072, 32, 1087, 1088, 1086, 1074, 1077, 1088,
       1077, 1085, 1072, 58, 32, 1091, 32, 1088, 1077, 1074, 1100, 1102, 1077, 1088,
       1072, 32, 1077, 1089, 1090, 1100, 32, 1079, 1072, 1084, 1077, 1095, 1072,
       1085, 1080, 1103, 46])]"

text \<open>
  The fixed part of the notification of \<open>parse_status\<close>, up to and including the
  opening double quote (in Latin letters: "Izmenilsya status proverki raboty").
\<close>

definition status_changed_text :: ustring where
  "status_changed_text =
    [1048, 1079, 1084, 1077, 1085, 1080, 1083, 1089, 1103, 32, 1089, 1090, 1072,
     1090, 1091, 1089, 32, 1087, 1088, 1086, 1074, 1077, 1088, 1082, 1080, 32,
     1088, 1072, 1073, 1086, 1090, 1099, 32, 34]"

section \<open>homework.py: the helper functions\<close>

text \<open>
  \<open>requests.get\<close> either raises a \<open>RequestException\<close> (held by its text) or gives
  a response, of which the program reads \<open>status_code\<close> and \<open>json()\<close>; the latter
  raises with some text when the body is not JSON.
\<close>

record response =
  status_code :: int
  json_body :: "ustring + json"

datatype http_result = RequestException ustring | Response response

text \<open>
  The network of one cycle answers a request by its \<open>from_date\<close> parameter, which
  is the only part of the request that varies.
\<close>

type_synonym network = "json \<Rightarrow> http_result"

definition get_api_answer :: "interp \<Rightarrow> network \<Rightarrow> json \<Rightarrow> exn + json" where
  "get_api_answer I net ts =
     (case net ts of
        RequestException error \<Rightarrow>
          Inl (Exn APIError
            (ascii ''API didn't return correct answer. '' @
             ascii ''Error '' @ error @ ascii ''. From date: '' @ py_str I ts))
      | Response r \<Rightarrow>
          if status_code r \<noteq> 200
          then Inl (Exn APIError (ascii ''API returned status '' @ str_int (status_code r)))
          else (case json_body r of
                  Inl text \<Rightarrow> Inl (Exn JSONDecodeError text)
                | Inr body \<Rightarrow> Inr body))"

text \<open>\<open>d.get(key) is None\<close>, on the binding \<open>map_of\<close> finds: the key is absent or bound to \<open>None\<close>.\<close>

definition absent_or_null :: "json option \<Rightarrow> bool" where
  "absent_or_null x = (x = None \<or> x = Some JNull)"

definition keys_to_check :: "ustring list" where
  "keys_to_check = [ascii ''homeworks'', ascii ''current_date'']"

text \<open>The \<open>for key in keys_to_check\<close> loop of \<open>check_response\<close>.\<close>

fun check_keys :: "json \<Rightarrow> ustring list \<Rightarrow> exn + unit" where
  "check_keys resp [] = Inr ()"
| "check_keys resp (key # keys) =
     (case py_get resp key of
        Inl e \<Rightarrow> Inl e
      | Inr v \<Rightarrow>
          if v = JNull
          then Inl (Exn APIKeyError
                 (ascii ''API response doesn't contain key '' @ quoted key))
          else check_keys resp keys)"

definition check_response :: "json \<Rightarrow> exn + unit" where
  "check_response resp =
     (if \<not> is_dict resp
      then Inl (Exn TypeError (ascii ''Unexpected data structure in API response''))
      else case check_keys resp keys_to_check of
             Inl e \<Rightarrow> Inl e
           | Inr u \<Rightarrow>
               (case py_get resp (ascii ''homeworks'') of
                  Inl e \<Rightarrow> Inl e
                | Inr hws \<Rightarrow>
                    if \<not> is_list hws
                    then Inl (Exn TypeError
                           (ascii ''Key `homeworks` in API response is not list type''))
                    else Inr ()))"

definition parse_status :: "interp \<Rightarrow> json \<Rightarrow> exn + ustring" where
  "parse_status I hw =
     (case py_get hw (ascii ''homework_name'') of
        Inl e \<Rightarrow> Inl e
      | Inr homework_name \<Rightarrow>
          if homework_name = JNull
          then Inl (Exn HomeworkNameNotFoundError
                 (ascii ''Key \"homework_name\" not found in this homework''))
          else
            (case py_get hw (ascii ''status'') of
               Inl e \<Rightarrow> Inl e
             | Inr status \<Rightarrow>
                 (case py_in status HOMEWORK_VERDICTS of
                    Inl e \<Rightarrow> Inl e
                  | Inr found \<Rightarrow>
                      if \<not> found
                      then Inl (Exn HomeworkStatusError
                             (ascii ''Unexpected status of homework: \"'' @
                              py_str I status @ ascii ''\"''))
                      else
                        (case py_lookup I HOMEWORK_VERDICTS status of
                           Inl e \<Rightarrow> Inl e
                         | Inr verdict \<Rightarrow>
                             Inr (status_changed_text @ py_str I homework_name @
                                  ascii ''\". '' @ verdict)))))"

section \<open>homework.py: the main loop\<close>

text \<open>
  A report is the \<open>dict\<close> with the keys \<open>homework\<close> and \<open>output\<close>. Its output is
  \<open>None\<close>, the message of \<open>parse_status\<close>, or, in the error path, the exception
  object itself. An exception class defines no \<open>__eq__\<close>, so two exception objects
  are equal only when they are the same object: an object is held with its
  identity, the number of exception objects created before it.
\<close>

datatype report_output = NoOutput | Message ustring | ErrorObject nat exn

record report =
  homework :: json
  "output" :: report_output

fun output_eq :: "report_output \<Rightarrow> report_output \<Rightarrow> bool" where
  "output_eq NoOutput NoOutput = True"
| "output_eq (Message a) (Message b) = (a = b)"
| "output_eq (ErrorObject i e) (ErrorObject j e') = (i = j)"
| "output_eq a b = False"

text \<open>
  \<open>r1 == r2\<close> on two reports: key by key. On the names the model compares the
  values as they are. Python's \<open>==\<close> differs from that on a few values (\<open>1\<close>,
  \<open>1.0\<close> and \<open>True\<close> are equal, the order of the keys of a \<open>dict\<close> does not
  count), all of which \<open>str\<close> prints differently; a message of \<open>parse_status\<close>
  holds \<open>str\<close> of the name, and an error object is equal to no other output, so
  on the reports the loop compares the two agree (a name that is \<open>NaN\<close> apart,
  which is equal to no value).
\<close>

definition report_eq :: "report \<Rightarrow> report \<Rightarrow> bool" where
  "report_eq r1 r2 = (homework r1 = homework r2 \<and> output_eq (output r1) (output r2))"

text \<open>
  Before the loop, \<open>main\<close> checks the tokens, creates the bot and sends a start
  message; what follows is about the loop. Its state: the variables of \<open>main\<close>
  that live across cycles, and the count of exception objects created so far.
\<close>

record loop_state =
  timestamp :: json
  current_report :: report
  prev_report :: report
  objects :: nat

text \<open>The state before the first cycle; \<open>now\<close> is \<open>int(time.time())\<close>.\<close>

definition initial_state :: "int \<Rightarrow> loop_state" where
  "initial_state now =
     \<lparr>timestamp = JInt now,
      current_report = \<lparr>homework = JNull, output = NoOutput\<rparr>,
      prev_report = \<lparr>homework = JNull, output = NoOutput\<rparr>,
      objects = 0\<rparr>"

text \<open>
  How the \<open>try\<close> block ends: at its last statement, at \<open>continue\<close>, or with an
  exception. It is returned with the state at that point and the texts handed to
  \<open>send_message\<close>, which swallows a delivery failure and changes no state.
\<close>

datatype completion = Completed | Continued | Raised exn

definition try_body :: "interp \<Rightarrow> network \<Rightarrow> loop_state \<Rightarrow> completion \<times> loop_state \<times> ustring list" where
  "try_body I net s =
     (case get_api_answer I net (timestamp s) of
        Inl e \<Rightarrow> (Raised e, s, [])
      | Inr resp \<Rightarrow>
     (case check_response resp of
        Inl e \<Rightarrow> (Raised e, s, [])
      | Inr u \<Rightarrow>
     (case py_getitem I resp (ascii ''homeworks'') of
        Inl e \<Rightarrow> (Raised e, s, [])
      | Inr homeworks \<Rightarrow>
          if \<not> py_bool homeworks then (Continued, s, [])
          else
     (case py_first homeworks of
        Inl e \<Rightarrow> (Raised e, s, [])
      | Inr hw \<Rightarrow>
     (case py_getitem I hw (ascii ''homework_name'') of
        Inl e \<Rightarrow> (Raised e, s, [])
      | Inr name \<Rightarrow>
          let s1 = s\<lparr>current_report := (current_report s)\<lparr>homework := name\<rparr>\<rparr> in
     (case parse_status I hw of
        Inl e \<Rightarrow> (Raised e, s1, [])
      | Inr message \<Rightarrow>
          let s2 = s1\<lparr>current_report := (current_report s1)\<lparr>output := Message message\<rparr>\<rparr>;
              (s3, sent) =
                (if \<not> report_eq (current_report s2) (prev_report s2)
                 then (s2\<lparr>prev_report := current_report s2\<rparr>, [message])
                 else (s2, []))
          in
     (case py_getitem I resp (ascii ''current_date'') of
        Inl e \<Rightarrow> (Raised e, s3, sent)
      | Inr d \<Rightarrow> (Completed, s3\<lparr>timestamp := d\<rparr>, sent))))))))"

text \<open>The text of the error notification: \<open>ERROR\<close>, a dash, \<open>str(error)\<close>.\<close>

fun error_notice :: "exn \<Rightarrow> ustring" where
  "error_notice (Exn c text) = [69, 82, 82, 79, 82, 32, 8211, 32] @ text"

text \<open>
  The \<open>except Exception as error\<close> block. The exception it binds was created by
  the \<open>raise\<close> of this cycle, so it is a new object. (An exception that is not an
  \<open>Exception\<close>, such as \<open>KeyboardInterrupt\<close>, is not a value of \<open>exn\<close>: it ends
  the process, from outside the program.)
\<close>

definition except_block :: "exn \<Rightarrow> loop_state \<Rightarrow> loop_state \<times> ustring list" where
  "except_block error s =
     (let s1 = s\<lparr>current_report := (current_report s)\<lparr>output := ErrorObject (objects s) error\<rparr>,
                 objects := Suc (objects s)\<rparr>
      in if \<not> report_eq (current_report s1) (prev_report s1)
         then (s1\<lparr>prev_report := current_report s1\<rparr>, [error_notice error])
         else (s1, []))"

text \<open>
  One iteration of \<open>while True\<close>: the new state and the texts handed to
  \<open>send_message\<close>, in order. The \<open>finally\<close> block only sleeps.
\<close>

definition cycle :: "interp \<Rightarrow> network \<Rightarrow> loop_state \<Rightarrow> loop_state \<times> ustring list" where
  "cycle I net s =
     (case try_body I net s of
        (Raised e, s1, sent) \<Rightarrow>
          (let (s2, sent2) = except_block e s1 in (s2, sent @ sent2))
      | (c, s1, sent) \<Rightarrow> (s1, sent))"

text \<open>
  The loop has no exit; its first cycles are run against the networks they meet,
  giving the state reached and what each cycle sent.
\<close>

fun main_loop :: "interp \<Rightarrow> loop_state \<Rightarrow> network list \<Rightarrow> loop_state \<times> ustring list list" where
  "main_loop I s [] = (s, [])"
| "main_loop I s (net # nets) =
     (let (s1, sent) = cycle I net s;
          (s2, rest) = main_loop I s1 nets
      in (s2, sent # rest))"

text \<open>The state a run from the start reaches after the given cycles.\<close>

definition state_after :: "interp \<Rightarrow> int \<Rightarrow> network list \<Rightarrow> loop_state" where
  "state_after I now nets = fst (main_loop I (initial_state now) nets)"

section \<open>Sample inputs\<close>

text \<open>
  A network on which the API answers with status 200, the given homeworks and the
  given \<open>current_date\<close>; one on which the request times out; a homework with a
  name and a status.
\<close>

definition api_response :: "json list \<Rightarrow> int \<Rightarrow> network" where
  "api_response hws d =
     (\<lambda>ts. Response
        \<lparr>status_code = 200,
         json_body = Inr (JDict [(ascii ''homeworks'', JList hws), (ascii ''current_date'', JInt d)])\<rparr>)"

definition failing_network :: network where
  "failing_network = (\<lambda>ts. RequestException (ascii ''timed out''))"

definition sample_homework :: "json \<Rightarrow> ustring \<Rightarrow> json" where
  "sample_homework name status =
     JDict [(ascii ''homework_name'', name), (ascii ''status'', JStr status)]"

text \<open>
  An interpreter for concrete evaluations: its \<open>repr\<close> puts a \<open>str\<close> between
  single quotes, as CPython does for printable text without quotes or
  backslashes.
\<close>

definition sample_interp :: interp where
  "sample_interp =
     \<lparr>repr_str = quoted, str_index_text = ascii ''string indices must be integers''\<rparr>"

text \<open>Every exception object a state refers to was created before.\<close>

fun output_below :: "nat \<Rightarrow> report_output \<Rightarrow> bool" where
  "output_below n (ErrorObject i e) = (i < n)"
| "output_below n out = True"

definition objects_ok :: "loop_state \<Rightarrow> bool" where
  "objects_ok s =
     (output_below (objects s) (output (current_report s)) \<and>
      output_below (objects s) (output (prev_report s)))"

section \<open>The helper functions\<close>

subsection \<open>check_response\<close>

lemma ascii_keys_neq [simp]:
  "ascii ''homeworks'' \<noteq> ascii ''current_date''"
  "ascii ''current_date'' \<noteq> ascii ''homeworks''"
  by (simp_all add: ascii_def)

lemma check_response_not_dict:
  "\<not> is_dict v \<Longrightarrow> check_response v = Inl (Exn TypeError (ascii ''Unexpected data structure in API response''))"
  by (simp add: check_response_def)

lemma check_response_no_homeworks:
  "map_of kvs (ascii ''homeworks'') = None \<or> map_of kvs (ascii ''homeworks'') = Some JNull \<Longrightarrow>
   check_response (JDict kvs) = Inl (Exn APIKeyError (ascii ''API response doesn't contain key '' @ quoted (ascii ''homeworks'')))"
  by (auto simp add: check_response_def keys_to_check_def)

lemma check_response_no_current_date:
  "map_of kvs (ascii ''homeworks'') = Some h \<Longrightarrow> h \<noteq> JNull \<Longrightarrow>
   map_of kvs (ascii ''current_date'') = None \<or> map_of kvs (ascii ''current_date'') = Some JNull \<Longrightarrow>
   check_response (JDict kvs) = Inl (Exn APIKeyError (ascii ''API response doesn't contain key '' @ quoted (ascii ''current_date'')))"
  by (auto simp add: check_response_def keys_to_check_def)

lemma check_response_not_list:
  "map_of kvs (ascii ''homeworks'') = Some h \<Longrightarrow> h \<noteq> JNull \<Longrightarrow>
   map_of kvs (ascii ''current_date'') = Some d \<Longrightarrow> d \<noteq> JNull \<Longrightarrow> \<not> is_list h \<Longrightarrow>
   check_response (JDict kvs) = Inl (Exn TypeError (ascii ''Key `homeworks` in API response is not list type''))"
  by (auto simp add: check_response_def keys_to_check_def)

lemma check_response_good:
  "map_of kvs (ascii ''homeworks'') = Some (JList hs) \<Longrightarrow>
   map_of kvs (ascii ''current_date'') = Some d \<Longrightarrow> d \<noteq> JNull \<Longrightarrow>
   check_response (JDict kvs) = Inr ()"
  by (auto simp add: check_response_def keys_to_check_def)

text \<open>A response that passes is a \<open>dict\<close> with a list of homeworks and a date.\<close>

lemma check_response_ok:
  assumes "check_response resp = Inr ()"
  shows "\<exists>kvs hs d. resp = JDict kvs \<and> map_of kvs (ascii ''homeworks'') = Some (JList hs) \<and>
     map_of kvs (ascii ''current_date'') = Some d \<and> d \<noteq> JNull"
proof -
  from assms obtain kvs where r: "resp = JDict kvs"
    by (cases resp) (simp_all add: check_response_def)
  from assms r obtain h where h: "map_of kvs (ascii ''homeworks'') = Some h" "h \<noteq> JNull"
    using check_response_no_homeworks [of kvs] by (cases "map_of kvs (ascii ''homeworks'')") auto
  from assms r h obtain d where d: "map_of kvs (ascii ''current_date'') = Some d" "d \<noteq> JNull"
    using check_response_no_current_date [of kvs h] by (cases "map_of kvs (ascii ''current_date'')") auto
  from assms r h d obtain hs where "h = JList hs"
    using check_response_not_list [of kvs h d] by (cases h) auto
  with r h d show ?thesis by blast
qed

text \<open>
  C8. \<open>check_response\<close> raises \<open>TypeError\<close> for a value that is not a \<open>dict\<close>. For
  a \<open>dict\<close> in which \<open>homeworks\<close> is absent or \<open>None\<close> it raises \<open>APIKeyError\<close> with
  a message that names \<open>homeworks\<close>; when \<open>homeworks\<close> is there and \<open>current_date\<close>
  is absent or \<open>None\<close>, one that names \<open>current_date\<close>. When \<open>homeworks\<close> is present
  and not a list it raises an error, which is the \<open>TypeError\<close> of the last check
  when both keys are there. In every other case it returns without raising. It is
  a function of the response alone: it reads and writes no state.
\<close>

theorem check_response_contract:
  "(\<not> is_dict v \<longrightarrow>
      check_response v =
        Inl (Exn TypeError (ascii ''Unexpected data structure in API response'')))
   \<and>
   (absent_or_null (map_of kvs (ascii ''homeworks'')) \<longrightarrow>
      check_response (JDict kvs) =
        Inl (Exn APIKeyError
          (ascii ''API response doesn't contain key '' @ quoted (ascii ''homeworks''))))
   \<and>
   (\<not> absent_or_null (map_of kvs (ascii ''homeworks'')) \<and>
    absent_or_null (map_of kvs (ascii ''current_date'')) \<longrightarrow>
      check_response (JDict kvs) =
        Inl (Exn APIKeyError
          (ascii ''API response doesn't contain key '' @ quoted (ascii ''current_date''))))
   \<and>
   (map_of kvs (ascii ''homeworks'') = Some h \<and> \<not> is_list h \<longrightarrow>
      (\<exists>e. check_response (JDict kvs) = Inl e))
   \<and>
   (map_of kvs (ascii ''homeworks'') = Some h \<and> h \<noteq> JNull \<and> \<not> is_list h \<and>
    \<not> absent_or_null (map_of kvs (ascii ''current_date'')) \<longrightarrow>
      check_response (JDict kvs) =
        Inl (Exn TypeError (ascii ''Key `homeworks` in API response is not list type'')))
   \<and>
   (map_of kvs (ascii ''homeworks'') = Some (JList hs) \<and>
    \<not> absent_or_null (map_of kvs (ascii ''current_date'')) \<longrightarrow>
      check_response (JDict kvs) = Inr ())"
proof (intro conjI impI)
  assume "\<not> is_dict v"
  then show "check_response v =
        Inl (Exn TypeError (ascii ''Unexpected data structure in API response''))"
    by (rule check_response_not_dict)
next
  assume "absent_or_null (map_of kvs (ascii ''homeworks''))"
  then show "check_response (JDict kvs) =
        Inl (Exn APIKeyError
          (ascii ''API response doesn't contain key '' @ quoted (ascii ''homeworks'')))"
    by (simp add: absent_or_null_def check_response_no_homeworks)
next
  assume "\<not> absent_or_null (map_of kvs (ascii ''homeworks'')) \<and>
    absent_or_null (map_of kvs (ascii ''current_date''))"
  then show "check_response (JDict kvs) =
        Inl (Exn APIKeyError
          (ascii ''API response doesn't contain key '' @ quoted (ascii ''current_date'')))"
    using check_response_no_current_date [of kvs]
    by (auto simp add: absent_or_null_def)
next
  assume a: "map_of kvs (ascii ''homeworks'') = Some h \<and> \<not> is_list h"
  show "\<exists>e. check_response (JDict kvs) = Inl e"
  proof (cases "check_response (JDict kvs)")
    case (Inr u)
    then have "check_response (JDict kvs) = Inr ()" by simp
    from check_response_ok [OF this] a show ?thesis by auto
  qed simp
next
  assume "map_of kvs (ascii ''homeworks'') = Some h \<and> h \<noteq> JNull \<and> \<not> is_list h \<and>
    \<not> absent_or_null (map_of kvs (ascii ''current_date''))"
  then show "check_response (JDict kvs) =
        Inl (Exn TypeError (ascii ''Key `homeworks` in API response is not list type''))"
    using check_response_not_list [of kvs h]
    by (auto simp add: absent_or_null_def)
next
  assume "map_of kvs (ascii ''homeworks'') = Some (JList hs) \<and>
    \<not> absent_or_null (map_of kvs (ascii ''current_date''))"
  then show "check_response (JDict kvs) = Inr ()"
    using check_response_good [of kvs hs]
    by (auto simp add: absent_or_null_def)
qed

theorem check_response_contract_witness:
  "check_response (JList []) =
     Inl (Exn TypeError (ascii ''Unexpected data structure in API response''))
   \<and>
   check_response (JDict [(ascii ''current_date'', JInt 2000)]) =
     Inl (Exn APIKeyError (ascii ''API response doesn't contain key '' @ quoted (ascii ''homeworks'')))
   \<and>
   check_response (JDict [(ascii ''homeworks'', JList []), (ascii ''current_date'', JNull)]) =
     Inl (Exn APIKeyError (ascii ''API response doesn't contain key '' @ quoted (ascii ''current_date'')))
   \<and>
   (\<exists>e. check_response (JDict [(ascii ''homeworks'', JInt 7)]) = Inl e)
   \<and>
   check_response (JDict [(ascii ''homeworks'', JInt 7), (ascii ''current_date'', JInt 2000)]) =
     Inl (Exn TypeError (ascii ''Key `homeworks` in API response is not list type''))
   \<and>
   check_response (JDict [(ascii ''homeworks'', JList []), (ascii ''current_date'', JInt 2000)]) = Inr ()"
proof -
  have a: "check_response (JList []) =
     Inl (Exn TypeError (ascii ''Unexpected data structure in API response''))"
    using check_response_contract [of "JList []" "[]"] by simp
  have b: "check_response (JDict [(ascii ''current_date'', JInt 2000)]) =
     Inl (Exn APIKeyError (ascii ''API response doesn't contain key '' @ quoted (ascii ''homeworks'')))"
    using check_response_contract [of JNull "[(ascii ''current_date'', JInt 2000)]"]
    by (simp add: absent_or_null_def)
  have c: "check_response (JDict [(ascii ''homeworks'', JList []), (ascii ''current_date'', JNull)]) =
     Inl (Exn APIKeyError (ascii ''API response doesn't contain key '' @ quoted (ascii ''current_date'')))"
    using check_response_contract
      [of JNull "[(ascii ''homeworks'', JList []), (ascii ''current_date'', JNull)]"]
    by (simp add: absent_or_null_def)
  have d: "\<exists>e. check_response (JDict [(ascii ''homeworks'', JInt 7)]) = Inl e"
    using check_response_contract [of JNull "[(ascii ''homeworks'', JInt 7)]" "JInt 7"]
    by simp
  have e: "check_response (JDict [(ascii ''homeworks'', JInt 7), (ascii ''current_date'', JInt 2000)]) =
     Inl (Exn TypeError (ascii ''Key `homeworks` in API response is not list type''))"
    using check_response_contract
      [of JNull "[(ascii ''homeworks'', JInt 7), (ascii ''current_date'', JInt 2000)]" "JInt 7"]
    by (simp add: absent_or_null_def)
  have f: "check_response (JDict [(ascii ''homeworks'', JList []), (ascii ''current_date'', JInt 2000)]) = Inr ()"
    using check_response_contract
      [of JNull "[(ascii ''homeworks'', JList []), (ascii ''current_date'', JInt 2000)]" _ "[]"]
    by (simp add: absent_or_null_def)
  from a b c d e f show ?thesis by (intro conjI)
qed

subsection \<open>get_api_answer\<close>

text \<open>
  C9. When the request fails at the network level, \<open>get_api_answer\<close> raises
  \<open>APIError\<close> with a message that holds the text of the cause and the timestamp;
  when the response has a status other than 200, \<open>APIError\<close> with a message that
  holds the status code; when the status is 200, it returns the decoded JSON body
  of the response.
\<close>

theorem get_api_answer_contract:
  "(net ts = RequestException cause \<longrightarrow>
      get_api_answer I net ts =
        Inl (Exn APIError
          (ascii ''API didn't return correct answer. Error '' @ cause @
           ascii ''. From date: '' @ py_str I ts)))
   \<and>
   (net ts = Response r \<and> status_code r \<noteq> 200 \<longrightarrow>
      get_api_answer I net ts =
        Inl (Exn APIError (ascii ''API returned status '' @ str_int (status_code r))))
   \<and>
   (net ts = Response r \<and> status_code r = 200 \<and> json_body r = Inr body \<longrightarrow>
      get_api_answer I net ts = Inr body)"
  by (simp add: get_api_answer_def ascii_def)

theorem get_api_answer_contract_witness:
  "get_api_answer sample_interp (\<lambda>ts. RequestException (ascii ''timed out'')) (JInt 1000) =
     Inl (Exn APIError
       (ascii ''API didn't return correct answer. Error timed out. From date: 1000''))
   \<and>
   get_api_answer sample_interp
     (\<lambda>ts. Response \<lparr>status_code = 503, json_body = Inr JNull\<rparr>) (JInt 1000) =
     Inl (Exn APIError (ascii ''API returned status 503''))
   \<and>
   get_api_answer sample_interp
     (\<lambda>ts. Response \<lparr>status_code = 200, json_body = Inr (JDict [(ascii ''current_date'', ts)])\<rparr>)
     (JInt 1000) =
     Inr (JDict [(ascii ''current_date'', JInt 1000)])"
proof -
  have d1: "str_int 1000 = ascii ''1000''"
    by code_simp
  have d2: "str_int 503 = ascii ''503''"
    by code_simp
  have a: "get_api_answer sample_interp (\<lambda>ts. RequestException (ascii ''timed out'')) (JInt 1000) =
     Inl (Exn APIError
       (ascii ''API didn't return correct answer. Error timed out. From date: 1000''))"
    using get_api_answer_contract
      [of "\<lambda>ts. RequestException (ascii ''timed out'')" "JInt 1000" "ascii ''timed out''" sample_interp]
    by (simp add: py_str_def d1 ascii_def)
  have b: "get_api_answer sample_interp
     (\<lambda>ts. Response \<lparr>status_code = 503, json_body = Inr JNull\<rparr>) (JInt 1000) =
     Inl (Exn APIError (ascii ''API returned status 503''))"
    using get_api_answer_contract
      [of "\<lambda>ts. Response \<lparr>status_code = 503, json_body = Inr JNull\<rparr>" "JInt 1000" _ sample_interp
          "\<lparr>status_code = 503, json_body = Inr JNull\<rparr>"]
    by (simp add: d2 ascii_def)
  have c: "get_api_answer sample_interp
     (\<lambda>ts. Response \<lparr>status_code = 200, json_body = Inr (JDict [(ascii ''current_date'', ts)])\<rparr>)
     (JInt 1000) =
     Inr (JDict [(ascii ''current_date'', JInt 1000)])"
    using get_api_answer_contract
      [of "\<lambda>ts. Response \<lparr>status_code = 200, json_body = Inr (JDict [(ascii ''current_date'', ts)])\<rparr>"
          "JInt 1000" _ sample_interp
          "\<lparr>status_code = 200, json_body = Inr (JDict [(ascii ''current_date'', JInt 1000)])\<rparr>"
          "JDict [(ascii ''current_date'', JInt 1000)]"]
    by simp
  from a b c show ?thesis by (intro conjI)
qed

text \<open>
  The remaining outcome: a response with status 200 whose body \<open>response.json()\<close>
  cannot decode. The \<open>return\<close> statement is outside the \<open>try\<close> block, so the
  exception of \<open>json()\<close> leaves \<open>get_api_answer\<close> as it is, not as an \<open>APIError\<close>.
\<close>

lemma get_api_answer_undecodable:
  "net ts = Response r \<Longrightarrow> status_code r = 200 \<Longrightarrow> json_body r = Inl text \<Longrightarrow>
   get_api_answer I net ts = Inl (Exn JSONDecodeError text)"
  by (simp add: get_api_answer_def)

subsection \<open>parse_status\<close>

text \<open>
  C6. For a homework with the name \<open>X\<close> and the status \<open>approved\<close>, \<open>parse_status\<close>
  returns the fixed text, \<open>X\<close> between double quotes, a full stop and the verdict
  for \<open>approved\<close>; the expected string is written out code point by code point.
\<close>

theorem parse_status_approved:
  assumes "map_of kvs (ascii ''homework_name'') = Some (JStr X)"
    and "map_of kvs (ascii ''status'') = Some (JStr (ascii ''approved''))"
  shows "parse_status I (JDict kvs) =
     Inr ([1048, 1079, 1084, 1077, 1085, 1080, 1083, 1089, 1103, 32, 1089, 1090, 1072, 1090, 1091, 1089, 32, 1087, 1088, 1086, 1074, 1077, 1088, 1082, 1080, 32, 1088, 1072, 1073, 1086, 1090, 1099, 32, 34]
      @ X @ [34, 46, 32, 1056, 1072, 1073, 1086, 1090, 1072, 32, 1087, 1088, 1086, 1074, 1077, 1088, 1077, 1085, 1072, 58, 32, 1088, 1077, 1074, 1100, 1102, 1077, 1088, 1091, 32, 1074, 1089, 1105, 32, 1087, 1086, 1085, 1088, 1072, 1074, 1080, 1083, 1086, 1089, 1100, 46, 32, 1059, 1088, 1072, 33])"
  using assms
  by (simp add: parse_status_def HOMEWORK_VERDICTS_def status_changed_text_def py_str_def ascii_def)

theorem parse_status_approved_witness:
  "map_of [(ascii ''homework_name'', JStr (ascii ''X'')), (ascii ''status'', JStr (ascii ''approved''))]
     (ascii ''homework_name'') = Some (JStr (ascii ''X'')) \<and>
   map_of [(ascii ''homework_name'', JStr (ascii ''X'')), (ascii ''status'', JStr (ascii ''approved''))]
     (ascii ''status'') = Some (JStr (ascii ''approved'')) \<and>
   parse_status sample_interp
     (JDict [(ascii ''homework_name'', JStr (ascii ''X'')), (ascii ''status'', JStr (ascii ''approved''))]) =
     Inr [1048, 1079, 1084, 1077, 1085, 1080, 1083, 1089, 1103, 32, 1089, 1090,
          1072, 1090, 1091, 1089, 32, 1087, 1088, 1086, 1074, 1077, 1088, 1082,
          1080, 32, 1088, 1072, 1073, 1086, 1090, 1099, 32, 34, 88, 34, 46, 32,
          1056, 1072, 1073, 1086, 1090, 1072, 32, 1087, 1088, 1086, 1074, 1077,
          1088, 1077, 1085, 1072, 58, 32, 1088, 1077, 1074, 1100, 1102, 1077,
          1088, 1091, 32, 1074, 1089, 1105, 32, 1087, 1086, 1085, 1088, 1072,
          1074, 1080, 1083, 1086, 1089, 1100, 46, 32, 1059, 1088, 1072, 33]"
proof -
  let ?kvs = "[(ascii ''homework_name'', JStr (ascii ''X'')), (ascii ''status'', JStr (ascii ''approved''))]"
  have n: "map_of ?kvs (ascii ''homework_name'') = Some (JStr (ascii ''X''))"
    by simp
  have st: "map_of ?kvs (ascii ''status'') = Some (JStr (ascii ''approved''))"
    by (simp add: ascii_def)
  show ?thesis
    using n st parse_status_approved [OF n st, of sample_interp] by (simp add: ascii_def)
qed

lemma py_in_scalar:
  "\<not> is_list v \<Longrightarrow> \<not> is_dict v \<Longrightarrow> py_in v d = Inr (\<exists>s. v = JStr s \<and> map_of d s \<noteq> None)"
  by (cases v) simp_all

lemma verdict_keys:
  "map_of HOMEWORK_VERDICTS s = None \<longleftrightarrow>
     s \<noteq> ascii ''approved'' \<and> s \<noteq> ascii ''reviewing'' \<and> s \<noteq> ascii ''rejected''"
  by (simp add: HOMEWORK_VERDICTS_def)

text \<open>
  C7, as stated, fails: a status that is a \<open>list\<close> is not one of the three
  statuses, and \<open>status not in HOMEWORK_VERDICTS\<close> raises the \<open>TypeError\<close> of an
  unhashable key before the status error can be raised.
\<close>

theorem parse_status_unhashable_status_counterexample:
  "parse_status sample_interp
     (JDict [(ascii ''homework_name'', JStr (ascii ''hw1'')), (ascii ''status'', JList [])]) =
   Inl (Exn TypeError (ascii ''unhashable type: '' @ quoted (ascii ''list'')))"
  by (simp add: parse_status_def ascii_def)

text \<open>
  C7, amended. For a homework whose \<open>homework_name\<close> is absent or \<open>None\<close>,
  \<open>parse_status\<close> raises \<open>HomeworkNameNotFoundError\<close>. For a homework with a name
  and a status that is absent, \<open>None\<close>, a boolean, a number or a string, and not one
  of \<open>approved\<close>, \<open>reviewing\<close>, \<open>rejected\<close>, it raises \<open>HomeworkStatusError\<close>, with the
  status in its message.
\<close>

theorem parse_status_errors:
  "(absent_or_null (map_of kvs (ascii ''homework_name'')) \<longrightarrow>
      parse_status I (JDict kvs) =
        Inl (Exn HomeworkNameNotFoundError
          (ascii ''Key \"homework_name\" not found in this homework'')))
   \<and>
   (map_of kvs (ascii ''homework_name'') = Some name \<and> name \<noteq> JNull \<and>
    status = (case map_of kvs (ascii ''status'') of None \<Rightarrow> JNull | Some x \<Rightarrow> x) \<and>
    \<not> is_list status \<and> \<not> is_dict status \<and>
    status \<notin> {JStr (ascii ''approved''), JStr (ascii ''reviewing''), JStr (ascii ''rejected'')} \<longrightarrow>
      parse_status I (JDict kvs) =
        Inl (Exn HomeworkStatusError
          (ascii ''Unexpected status of homework: \"'' @ py_str I status @ ascii ''\"'')))"
proof (intro conjI impI)
  assume "absent_or_null (map_of kvs (ascii ''homework_name''))"
  then show "parse_status I (JDict kvs) =
        Inl (Exn HomeworkNameNotFoundError
          (ascii ''Key \"homework_name\" not found in this homework''))"
    by (auto simp add: absent_or_null_def parse_status_def)
next
  assume a: "map_of kvs (ascii ''homework_name'') = Some name \<and> name \<noteq> JNull \<and>
    status = (case map_of kvs (ascii ''status'') of None \<Rightarrow> JNull | Some x \<Rightarrow> x) \<and>
    \<not> is_list status \<and> \<not> is_dict status \<and>
    status \<notin> {JStr (ascii ''approved''), JStr (ascii ''reviewing''), JStr (ascii ''rejected'')}"
  then have g: "py_get (JDict kvs) (ascii ''status'') = Inr status"
    by simp
  from a have "py_in status HOMEWORK_VERDICTS = Inr False"
    by (auto simp add: py_in_scalar verdict_keys)
  with a g show "parse_status I (JDict kvs) =
        Inl (Exn HomeworkStatusError
          (ascii ''Unexpected status of homework: \"'' @ py_str I status @ ascii ''\"''))"
    by (simp add: parse_status_def)
qed

theorem parse_status_errors_witness:
  "parse_status sample_interp (JDict [(ascii ''status'', JStr (ascii ''approved''))]) =
     Inl (Exn HomeworkNameNotFoundError (ascii ''Key \"homework_name\" not found in this homework''))
   \<and>
   parse_status sample_interp
     (JDict [(ascii ''homework_name'', JStr (ascii ''hw1'')), (ascii ''status'', JStr (ascii ''done''))]) =
     Inl (Exn HomeworkStatusError (ascii ''Unexpected status of homework: \"done\"''))
   \<and>
   parse_status sample_interp (JDict [(ascii ''homework_name'', JStr (ascii ''hw1''))]) =
     Inl (Exn HomeworkStatusError (ascii ''Unexpected status of homework: \"None\"''))"
proof -
  have a: "parse_status sample_interp (JDict [(ascii ''status'', JStr (ascii ''approved''))]) =
     Inl (Exn HomeworkNameNotFoundError (ascii ''Key \"homework_name\" not found in this homework''))"
    using parse_status_errors [of "[(ascii ''status'', JStr (ascii ''approved''))]" sample_interp]
    by (simp add: absent_or_null_def ascii_def)
  have b: "parse_status sample_interp
     (JDict [(ascii ''homework_name'', JStr (ascii ''hw1'')), (ascii ''status'', JStr (ascii ''done''))]) =
     Inl (Exn HomeworkStatusError (ascii ''Unexpected status of homework: \"done\"''))"
    using parse_status_errors
      [of "[(ascii ''homework_name'', JStr (ascii ''hw1'')), (ascii ''status'', JStr (ascii ''done''))]"
          sample_interp "JStr (ascii ''hw1'')" "JStr (ascii ''done'')"]
    by (simp add: ascii_def py_str_def)
  have c: "parse_status sample_interp (JDict [(ascii ''homework_name'', JStr (ascii ''hw1''))]) =
     Inl (Exn HomeworkStatusError (ascii ''Unexpected status of homework: \"None\"''))"
    using parse_status_errors
      [of "[(ascii ''homework_name'', JStr (ascii ''hw1''))]" sample_interp "JStr (ascii ''hw1'')" JNull]
    by (simp add: ascii_def py_str_def)
  from a b c show ?thesis by (intro conjI)
qed

section \<open>The main loop\<close>

subsection \<open>The try block, case by case\<close>

lemma try_body_fetch_error:
  "get_api_answer I net (timestamp s) = Inl e \<Longrightarrow> try_body I net s = (Raised e, s, [])"
  by (simp add: try_body_def)

lemma try_body_check_error:
  "get_api_answer I net (timestamp s) = Inr resp \<Longrightarrow> check_response resp = Inl e \<Longrightarrow>
   try_body I net s = (Raised e, s, [])"
  by (simp add: try_body_def)

lemma try_body_valid:
  assumes "get_api_answer I net (timestamp s) = Inr (JDict kvs)"
    and "map_of kvs (ascii ''homeworks'') = Some (JList hs)"
    and "map_of kvs (ascii ''current_date'') = Some d" and "d \<noteq> JNull"
  shows "try_body I net s =
    (case hs of
       [] \<Rightarrow> (Continued, s, [])
     | hw # rest \<Rightarrow>
        (case py_getitem I hw (ascii ''homework_name'') of
           Inl e \<Rightarrow> (Raised e, s, [])
         | Inr name \<Rightarrow>
            (case parse_status I hw of
               Inl e \<Rightarrow> (Raised e, s\<lparr>current_report := (current_report s)\<lparr>homework := name\<rparr>\<rparr>, [])
             | Inr message \<Rightarrow>
                (let cr = (current_report s)\<lparr>homework := name, output := Message message\<rparr>
                 in if report_eq cr (prev_report s)
                    then (Completed, s\<lparr>timestamp := d, current_report := cr\<rparr>, [])
                    else (Completed, s\<lparr>timestamp := d, current_report := cr, prev_report := cr\<rparr>,
                          [message])))))"
proof -
  have c: "check_response (JDict kvs) = Inr ()"
    using assms by (simp add: check_response_good)
  show ?thesis
    using assms(2,3)
    by (simp add: try_body_def assms(1) c Let_def split: list.splits sum.splits)
qed

text \<open>The ways a cycle can go, with the state and the texts the \<open>try\<close> block leaves.\<close>

lemma try_body_cases [consumes 0, case_names fetch_error check_error empty extract_error parse_error success]:
  obtains
    e where "get_api_answer I net (timestamp s) = Inl e"
      and "try_body I net s = (Raised e, s, [])"
  | resp e where "get_api_answer I net (timestamp s) = Inr resp"
      and "check_response resp = Inl e"
      and "try_body I net s = (Raised e, s, [])"
  | resp where "get_api_answer I net (timestamp s) = Inr resp"
      and "check_response resp = Inr ()"
      and "py_getitem I resp (ascii ''homeworks'') = Inr (JList [])"
      and "try_body I net s = (Continued, s, [])"
  | resp hw rest e where "get_api_answer I net (timestamp s) = Inr resp"
      and "check_response resp = Inr ()"
      and "py_getitem I resp (ascii ''homeworks'') = Inr (JList (hw # rest))"
      and "py_getitem I hw (ascii ''homework_name'') = Inl e"
      and "try_body I net s = (Raised e, s, [])"
  | resp hw rest name e where "get_api_answer I net (timestamp s) = Inr resp"
      and "check_response resp = Inr ()"
      and "py_getitem I resp (ascii ''homeworks'') = Inr (JList (hw # rest))"
      and "py_getitem I hw (ascii ''homework_name'') = Inr name"
      and "parse_status I hw = Inl e"
      and "try_body I net s =
             (Raised e, s\<lparr>current_report := (current_report s)\<lparr>homework := name\<rparr>\<rparr>, [])"
  | resp hw rest name message d cr where "get_api_answer I net (timestamp s) = Inr resp"
      and "check_response resp = Inr ()"
      and "py_getitem I resp (ascii ''homeworks'') = Inr (JList (hw # rest))"
      and "py_getitem I hw (ascii ''homework_name'') = Inr name"
      and "parse_status I hw = Inr message"
      and "py_getitem I resp (ascii ''current_date'') = Inr d"
      and "cr = (current_report s)\<lparr>homework := name, output := Message message\<rparr>"
      and "try_body I net s =
             (if report_eq cr (prev_report s)
              then (Completed, s\<lparr>timestamp := d, current_report := cr\<rparr>, [])
              else (Completed, s\<lparr>timestamp := d, current_report := cr, prev_report := cr\<rparr>,
                    [message]))"
proof (cases "get_api_answer I net (timestamp s)")
  case (Inl e)
  with that(1) show ?thesis by (simp add: try_body_fetch_error)
next
  case (Inr resp)
  note g = this
  show ?thesis
  proof (cases "check_response resp")
    case (Inl e)
    with g that(2) show ?thesis by (simp add: try_body_check_error)
  next
    case (Inr u)
    then have c: "check_response resp = Inr ()" by simp
    from check_response_ok [OF c] obtain kvs hs d where
      r: "resp = JDict kvs" and h: "map_of kvs (ascii ''homeworks'') = Some (JList hs)"
      and d: "map_of kvs (ascii ''current_date'') = Some d" "d \<noteq> JNull"
      by blast
    note tb = try_body_valid [OF g [unfolded r] h d]
    have gh: "py_getitem I resp (ascii ''homeworks'') = Inr (JList hs)"
      and gd: "py_getitem I resp (ascii ''current_date'') = Inr d"
      using r h d by simp_all
    show ?thesis
    proof (cases hs)
      case Nil
      with tb g c gh that(3) show ?thesis by simp
    next
      case (Cons hw rest)
      note hs = this
      show ?thesis
      proof (cases "py_getitem I hw (ascii ''homework_name'')")
        case (Inl e)
        with tb hs g c gh that(4) show ?thesis by simp
      next
        case (Inr name)
        note n = this
        show ?thesis
        proof (cases "parse_status I hw")
          case (Inl e)
          with tb hs n g c gh that(5) show ?thesis by simp
        next
          case (Inr message)
          with tb hs n g c gh gd that(6) [of resp hw rest name message d] show ?thesis
            by (simp add: Let_def)
        qed
      qed
    qed
  qed
qed

subsection \<open>Report equality, the except block, the cycle\<close>

lemma output_eq_refl [simp]: "output_eq a a"
  by (cases a) simp_all

lemma output_eq_sym: "output_eq a b \<Longrightarrow> output_eq b a"
  by (cases a; cases b) simp_all

lemma output_eq_trans: "output_eq a b \<Longrightarrow> output_eq b c \<Longrightarrow> output_eq a c"
  by (cases a; cases b; cases c) simp_all

lemma report_eq_refl [simp]: "report_eq r r"
  by (simp add: report_eq_def)

lemma report_eq_sym: "report_eq a b \<Longrightarrow> report_eq b a"
  by (auto simp add: report_eq_def intro: output_eq_sym)

lemma report_eq_trans: "report_eq a b \<Longrightarrow> report_eq b c \<Longrightarrow> report_eq a c"
  by (auto simp add: report_eq_def intro: output_eq_trans)

lemma output_below_fresh:
  "output_below n out \<Longrightarrow> \<not> output_eq (ErrorObject n e) out"
  by (cases out) simp_all

text \<open>The cycle, once the \<open>try\<close> block has ended.\<close>

lemma cycle_Raised:
  "try_body I net s = (Raised e, s1, sent) \<Longrightarrow>
   cycle I net s = (fst (except_block e s1), sent @ snd (except_block e s1))"
  by (simp add: cycle_def split: prod.splits)

lemma cycle_Continued:
  "try_body I net s = (Continued, s1, sent) \<Longrightarrow> cycle I net s = (s1, sent)"
  by (simp add: cycle_def)

lemma cycle_Completed:
  "try_body I net s = (Completed, s1, sent) \<Longrightarrow> cycle I net s = (s1, sent)"
  by (simp add: cycle_def)

lemma except_block_state:
  "fst (except_block e s) =
     (let cr = (current_report s)\<lparr>output := ErrorObject (objects s) e\<rparr>
      in if report_eq cr (prev_report s)
         then s\<lparr>current_report := cr, objects := Suc (objects s)\<rparr>
         else s\<lparr>current_report := cr, objects := Suc (objects s), prev_report := cr\<rparr>)"
  by (simp add: except_block_def Let_def)

lemma except_block_sent:
  "snd (except_block e s) =
     (if report_eq ((current_report s)\<lparr>output := ErrorObject (objects s) e\<rparr>) (prev_report s)
      then [] else [error_notice e])"
  by (simp add: except_block_def Let_def)

text \<open>
  What an exception in the \<open>try\<close> block leaves behind: nothing was sent, and only
  the \<open>homework\<close> field of the current report may have changed.
\<close>

lemma try_body_Raised:
  assumes "fst (try_body I net s) = Raised e"
  obtains s1 where "try_body I net s = (Raised e, s1, [])"
    and "timestamp s1 = timestamp s" and "prev_report s1 = prev_report s"
    and "objects s1 = objects s"
    and "output (current_report s1) = output (current_report s)"
proof (cases I net s rule: try_body_cases)
  case (success resp hw rest name message d cr)
  with assms show ?thesis by (simp split: if_splits)
qed (use assms that in \<open>simp_all\<close>)

lemma cycle_error:
  assumes "fst (try_body I net s) = Raised e"
  shows "timestamp (fst (cycle I net s)) = timestamp s"
    and "output (current_report (fst (cycle I net s))) = ErrorObject (objects s) e"
    and "objects (fst (cycle I net s)) = Suc (objects s)"
    and "report_eq (current_report (fst (cycle I net s))) (prev_report s) \<Longrightarrow>
           snd (cycle I net s) = [] \<and> prev_report (fst (cycle I net s)) = prev_report s"
    and "\<not> report_eq (current_report (fst (cycle I net s))) (prev_report s) \<Longrightarrow>
           snd (cycle I net s) = [error_notice e] \<and>
           prev_report (fst (cycle I net s)) = current_report (fst (cycle I net s))"
proof -
  from assms obtain s1 where tb: "try_body I net s = (Raised e, s1, [])"
    and s1: "timestamp s1 = timestamp s" "prev_report s1 = prev_report s" "objects s1 = objects s"
    by (rule try_body_Raised)
  note c = cycle_Raised [OF tb]
  show "timestamp (fst (cycle I net s)) = timestamp s"
    by (simp add: c except_block_state Let_def s1)
  show "output (current_report (fst (cycle I net s))) = ErrorObject (objects s) e"
    by (simp add: c except_block_state Let_def s1)
  show "objects (fst (cycle I net s)) = Suc (objects s)"
    by (simp add: c except_block_state Let_def s1)
  show "snd (cycle I net s) = [] \<and> prev_report (fst (cycle I net s)) = prev_report s"
    if "report_eq (current_report (fst (cycle I net s))) (prev_report s)"
    using that by (simp add: c except_block_state except_block_sent Let_def s1 split: if_splits)
  show "snd (cycle I net s) = [error_notice e] \<and>
      prev_report (fst (cycle I net s)) = current_report (fst (cycle I net s))"
    if "\<not> report_eq (current_report (fst (cycle I net s))) (prev_report s)"
    using that by (simp add: c except_block_state except_block_sent Let_def s1 split: if_splits)
qed

lemma cycle_not_sent:
  assumes "report_eq (current_report (fst (cycle I net s))) (prev_report s)"
  shows "snd (cycle I net s) = [] \<and> prev_report (fst (cycle I net s)) = prev_report s"
proof (cases I net s rule: try_body_cases)
  case (fetch_error e)
  then have "fst (try_body I net s) = Raised e" by simp
  from cycle_error(4) [OF this assms] show ?thesis .
next
  case (check_error resp e)
  then have "fst (try_body I net s) = Raised e" by simp
  from cycle_error(4) [OF this assms] show ?thesis .
next
  case (empty resp)
  then show ?thesis by (simp add: cycle_Continued)
next
  case (extract_error resp hw rest e)
  then have "fst (try_body I net s) = Raised e" by simp
  from cycle_error(4) [OF this assms] show ?thesis .
next
  case (parse_error resp hw rest name e)
  then have "fst (try_body I net s) = Raised e" by simp
  from cycle_error(4) [OF this assms] show ?thesis .
next
  case (success resp hw rest name message d cr)
  show ?thesis
  proof (cases "report_eq cr (prev_report s)")
    case True
    with success(8) have "try_body I net s = (Completed, s\<lparr>timestamp := d, current_report := cr\<rparr>, [])"
      by simp
    then show ?thesis by (simp add: cycle_Completed)
  next
    case False
    with success(8) have "try_body I net s =
        (Completed, s\<lparr>timestamp := d, current_report := cr, prev_report := cr\<rparr>, [message])"
      by simp
    then have "cycle I net s = (s\<lparr>timestamp := d, current_report := cr, prev_report := cr\<rparr>, [message])"
      by (rule cycle_Completed)
    with assms False show ?thesis by simp
  qed
qed

text \<open>Between cycles the current report and the previous one are equal.\<close>

lemma cycle_reports_agree:
  assumes "report_eq (current_report s) (prev_report s)"
  shows "report_eq (current_report (fst (cycle I net s))) (prev_report (fst (cycle I net s)))"
proof (cases "report_eq (current_report (fst (cycle I net s))) (prev_report s)")
  case True
  with cycle_not_sent [OF True] show ?thesis by simp
next
  case False
  show ?thesis
  proof (cases I net s rule: try_body_cases)
    case (empty resp)
    with assms show ?thesis by (simp add: cycle_Continued)
  next
    case (success resp hw rest name message d cr)
    then show ?thesis by (simp add: cycle_def)
  next
    case (fetch_error e)
    then have "fst (try_body I net s) = Raised e" by simp
    from cycle_error(5) [OF this False] show ?thesis by simp
  next
    case (check_error resp e)
    then have "fst (try_body I net s) = Raised e" by simp
    from cycle_error(5) [OF this False] show ?thesis by simp
  next
    case (extract_error resp hw rest e)
    then have "fst (try_body I net s) = Raised e" by simp
    from cycle_error(5) [OF this False] show ?thesis by simp
  next
    case (parse_error resp hw rest name e)
    then have "fst (try_body I net s) = Raised e" by simp
    from cycle_error(5) [OF this False] show ?thesis by simp
  qed
qed

lemma main_loop_reports_agree:
  "report_eq (current_report s) (prev_report s) \<Longrightarrow>
   report_eq (current_report (fst (main_loop I s nets))) (prev_report (fst (main_loop I s nets)))"
  by (induction nets arbitrary: s) (simp_all add: split_beta Let_def cycle_reports_agree)

lemma state_after_reports_agree:
  "report_eq (current_report (state_after I now nets)) (prev_report (state_after I now nets))"
  unfolding state_after_def
  by (rule main_loop_reports_agree) (simp add: initial_state_def)

text \<open>Definitions unfolded to run the loop on concrete networks.\<close>

lemmas sample_defs =
  state_after_def cycle_def try_body_def except_block_def get_api_answer_def
  api_response_def failing_network_def check_response_def keys_to_check_def
  sample_homework_def parse_status_def initial_state_def report_eq_def ascii_def
  HOMEWORK_VERDICTS_def py_str_def sample_interp_def quoted_def

lemma str_int_1000: "str_int 1000 = [49, 48, 48, 48]"
  by code_simp

subsection \<open>No second notification for an equal report\<close>

text \<open>
  The guard \<open>current_report != prev_report\<close> of both paths: in a cycle whose
  report is equal to the previous report by \<open>report_eq\<close>, \<open>send_message\<close> is not
  called and the previous report stays. In a run of the loop from its start the
  previous report is the report of the cycle before.
\<close>

lemma guard_equal_report_silent:
  "(report_eq (current_report (fst (cycle I net s))) (prev_report s) \<longrightarrow>
      snd (cycle I net s) = [] \<and> prev_report (fst (cycle I net s)) = prev_report s)
   \<and>
   (report_eq (current_report (fst (cycle I net (state_after I now nets))))
              (current_report (state_after I now nets)) \<longrightarrow>
      snd (cycle I net (state_after I now nets)) = [])"
proof (rule conjI; rule impI)
  assume "report_eq (current_report (fst (cycle I net s))) (prev_report s)"
  then show "snd (cycle I net s) = [] \<and> prev_report (fst (cycle I net s)) = prev_report s"
    by (rule cycle_not_sent)
next
  let ?s = "state_after I now nets"
  assume "report_eq (current_report (fst (cycle I net ?s))) (current_report ?s)"
  then have "report_eq (current_report (fst (cycle I net ?s))) (prev_report ?s)"
    using state_after_reports_agree by (rule report_eq_trans)
  then show "snd (cycle I net ?s) = []"
    by (simp add: cycle_not_sent)
qed

lemma guard_equal_report_example:
  "report_eq
     (current_report (fst (cycle sample_interp
        (api_response [sample_homework (JStr (ascii ''hw1'')) (ascii ''reviewing'')] 3000)
        (state_after sample_interp 1000
          [api_response [sample_homework (JStr (ascii ''hw1'')) (ascii ''reviewing'')] 2000]))))
     (prev_report (state_after sample_interp 1000
          [api_response [sample_homework (JStr (ascii ''hw1'')) (ascii ''reviewing'')] 2000]))
   \<and>
   report_eq
     (current_report (fst (cycle sample_interp
        (api_response [sample_homework (JStr (ascii ''hw1'')) (ascii ''reviewing'')] 3000)
        (state_after sample_interp 1000
          [api_response [sample_homework (JStr (ascii ''hw1'')) (ascii ''reviewing'')] 2000]))))
     (current_report (state_after sample_interp 1000
          [api_response [sample_homework (JStr (ascii ''hw1'')) (ascii ''reviewing'')] 2000]))
   \<and>
   snd (cycle sample_interp
        (api_response [sample_homework (JStr (ascii ''hw1'')) (ascii ''reviewing'')] 3000)
        (state_after sample_interp 1000
          [api_response [sample_homework (JStr (ascii ''hw1'')) (ascii ''reviewing'')] 2000])) = []
   \<and>
   prev_report (fst (cycle sample_interp
        (api_response [sample_homework (JStr (ascii ''hw1'')) (ascii ''reviewing'')] 3000)
        (state_after sample_interp 1000
          [api_response [sample_homework (JStr (ascii ''hw1'')) (ascii ''reviewing'')] 2000]))) =
   prev_report (state_after sample_interp 1000
          [api_response [sample_homework (JStr (ascii ''hw1'')) (ascii ''reviewing'')] 2000])"
proof -
  let ?hw = "sample_homework (JStr (ascii ''hw1'')) (ascii ''reviewing'')"
  let ?nets = "[api_response [?hw] 2000]"
  let ?s = "state_after sample_interp 1000 ?nets"
  let ?message = "status_changed_text @ ascii ''hw1'' @ ascii ''\". '' @
          the (map_of HOMEWORK_VERDICTS (ascii ''reviewing''))"
  have s: "?s = \<lparr>timestamp = JInt 2000,
      current_report = \<lparr>homework = JStr (ascii ''hw1''), output = Message ?message\<rparr>,
      prev_report = \<lparr>homework = JStr (ascii ''hw1''), output = Message ?message\<rparr>,
      objects = 0\<rparr>"
    by (simp add: sample_defs)
  have h1: "report_eq (current_report (fst (cycle sample_interp (api_response [?hw] 3000) ?s)))
     (prev_report ?s)"
    unfolding s by (simp add: sample_defs)
  have h2: "report_eq (current_report (fst (cycle sample_interp (api_response [?hw] 3000) ?s)))
     (current_report ?s)"
    unfolding s by (simp add: sample_defs)
  note t = guard_equal_report_silent [of sample_interp "api_response [?hw] 3000" ?s 1000 ?nets]
  from t h2 have a: "snd (cycle sample_interp (api_response [?hw] 3000) ?s) = []"
    by blast
  from t h1 have b: "prev_report (fst (cycle sample_interp (api_response [?hw] 3000) ?s)) =
      prev_report ?s"
    by blast
  from h1 h2 a b show ?thesis by (intro conjI)
qed

text \<open>
  In the \<open>try\<close> path the output of the report is the text of the message, so
  the guard works on the contents: a successful cycle with the name and the
  message of the previous report sends nothing.
\<close>

lemma repeated_success_report_silent:
  assumes "get_api_answer I net (timestamp s) = Inr resp"
    and "check_response resp = Inr ()"
    and "py_getitem I resp (ascii ''homeworks'') = Inr (JList (hw # rest))"
    and "py_getitem I hw (ascii ''homework_name'') = Inr name"
    and "parse_status I hw = Inr message"
    and "homework (prev_report s) = name"
    and "output (prev_report s) = Message message"
  shows "snd (cycle I net s) = []"
proof (cases I net s rule: try_body_cases)
  case (success resp' hw' rest' name' message' d cr)
  with assms have "report_eq cr (prev_report s)"
    by (simp add: report_eq_def)
  with success(8) show ?thesis
    by (simp add: cycle_Completed)
qed (use assms in \<open>simp_all\<close>)

text \<open>
  C1. A cycle whose report, homework name and output message, is the same as the
  report sent before must send no notification, in the \<open>try\<close> path and in the
  \<open>except\<close> path. The \<open>try\<close> path does so (above). The \<open>except\<close> path has the
  same guard and misses: the output it stores is the exception object, not its
  text, and a new object is equal to no earlier one. Two cycles in a row in which
  the request times out build reports with the same homework and the same text,
  and the notification is sent in both.
\<close>

theorem identical_error_reports_notified_twice:
  "snd (main_loop sample_interp (initial_state 1000) [failing_network, failing_network]) =
     [[error_notice (Exn APIError
         (ascii ''API didn't return correct answer. Error timed out. From date: 1000''))],
      [error_notice (Exn APIError
         (ascii ''API didn't return correct answer. Error timed out. From date: 1000''))]]
   \<and>
   current_report (state_after sample_interp 1000 [failing_network]) =
     \<lparr>homework = JNull,
      output = ErrorObject 0 (Exn APIError
        (ascii ''API didn't return correct answer. Error timed out. From date: 1000''))\<rparr>
   \<and>
   current_report (state_after sample_interp 1000 [failing_network, failing_network]) =
     \<lparr>homework = JNull,
      output = ErrorObject 1 (Exn APIError
        (ascii ''API didn't return correct answer. Error timed out. From date: 1000''))\<rparr>"
  by (simp add: sample_defs str_int_1000)

subsection \<open>Error cycles\<close>

lemma output_below_mono: "output_below n out \<Longrightarrow> output_below (Suc n) out"
  by (cases out) simp_all

lemma objects_ok_initial: "objects_ok (initial_state now)"
  by (simp add: objects_ok_def initial_state_def)

lemma cycle_objects_ok:
  assumes "objects_ok s"
  shows "objects_ok (fst (cycle I net s))"
proof (cases I net s rule: try_body_cases)
  case (empty resp)
  with assms show ?thesis by (simp add: cycle_Continued)
next
  case (success resp hw rest name message d cr)
  with assms show ?thesis by (simp add: cycle_def objects_ok_def)
next
  case (fetch_error e)
  with assms show ?thesis
    by (simp add: cycle_Raised except_block_state Let_def objects_ok_def output_below_mono)
next
  case (check_error resp e)
  with assms show ?thesis
    by (simp add: cycle_Raised except_block_state Let_def objects_ok_def output_below_mono)
next
  case (extract_error resp hw rest e)
  with assms show ?thesis
    by (simp add: cycle_Raised except_block_state Let_def objects_ok_def output_below_mono)
next
  case (parse_error resp hw rest name e)
  with assms show ?thesis
    by (simp add: cycle_Raised except_block_state Let_def objects_ok_def output_below_mono)
qed

lemma main_loop_objects_ok:
  "objects_ok s \<Longrightarrow> objects_ok (fst (main_loop I s nets))"
  by (induction nets arbitrary: s) (simp_all add: split_beta Let_def cycle_objects_ok)

lemma state_after_objects_ok: "objects_ok (state_after I now nets)"
  unfolding state_after_def
  by (rule main_loop_objects_ok) (rule objects_ok_initial)

text \<open>The report of an error cycle holds a new object, which no earlier report holds.\<close>

lemma error_report_differs:
  assumes "objects_ok s" and "fst (try_body I net s) = Raised e"
  shows "\<not> report_eq (current_report (fst (cycle I net s))) (prev_report s)"
proof -
  from assms(1) have "output_below (objects s) (output (prev_report s))"
    by (simp add: objects_ok_def)
  then have "\<not> output_eq (ErrorObject (objects s) e) (output (prev_report s))"
    by (rule output_below_fresh)
  then show ?thesis
    by (simp add: report_eq_def cycle_error(2) [OF assms(2)])
qed

text \<open>
  C2. The \<open>except\<close> block stores the exception object itself as \<open>output\<close>, and
  two exception objects are equal only when they are the same object. So for every
  two consecutive cycles of a run that both raise, also with the same message, each
  report differs from the previous report and each cycle sends its error
  notification.
\<close>

theorem error_cycles_always_notified:
  assumes "s = state_after I now nets"
    and "fst (try_body I net1 s) = Raised e1"
    and "s1 = fst (cycle I net1 s)"
    and "fst (try_body I net2 s1) = Raised e2"
  shows "output (current_report s1) = ErrorObject (objects s) e1 \<and>
         output (current_report (fst (cycle I net2 s1))) = ErrorObject (Suc (objects s)) e2 \<and>
         \<not> report_eq (current_report s1) (prev_report s) \<and>
         \<not> report_eq (current_report (fst (cycle I net2 s1))) (prev_report s1) \<and>
         snd (cycle I net1 s) = [error_notice e1] \<and>
         snd (cycle I net2 s1) = [error_notice e2]"
proof -
  have ok: "objects_ok s"
    unfolding assms(1) by (rule state_after_objects_ok)
  then have ok1: "objects_ok s1"
    unfolding assms(3) by (rule cycle_objects_ok)
  have d: "\<not> report_eq (current_report (fst (cycle I net1 s))) (prev_report s)"
    using ok assms(2) by (rule error_report_differs)
  have d1: "\<not> report_eq (current_report (fst (cycle I net2 s1))) (prev_report s1)"
    using ok1 assms(4) by (rule error_report_differs)
  have o1: "objects s1 = Suc (objects s)"
    unfolding assms(3) by (rule cycle_error(3) [OF assms(2)])
  show ?thesis
    using d d1 cycle_error(2) [OF assms(2)] cycle_error(2) [OF assms(4)]
      cycle_error(5) [OF assms(2) d] cycle_error(5) [OF assms(4) d1] o1
    by (simp add: assms(3))
qed

theorem error_cycles_always_notified_witness:
  "fst (try_body sample_interp failing_network (state_after sample_interp 1000 [])) =
     Raised (Exn APIError
       (ascii ''API didn't return correct answer. Error timed out. From date: 1000''))
   \<and>
   fst (try_body sample_interp failing_network
          (fst (cycle sample_interp failing_network (state_after sample_interp 1000 [])))) =
     Raised (Exn APIError
       (ascii ''API didn't return correct answer. Error timed out. From date: 1000''))
   \<and>
   snd (cycle sample_interp failing_network (state_after sample_interp 1000 [])) =
     [error_notice (Exn APIError
        (ascii ''API didn't return correct answer. Error timed out. From date: 1000''))]
   \<and>
   snd (cycle sample_interp failing_network
          (fst (cycle sample_interp failing_network (state_after sample_interp 1000 [])))) =
     [error_notice (Exn APIError
        (ascii ''API didn't return correct answer. Error timed out. From date: 1000''))]"
proof -
  let ?e = "Exn APIError
       (ascii ''API didn't return correct answer. Error timed out. From date: 1000'')"
  let ?s = "state_after sample_interp 1000 []"
  have h1: "fst (try_body sample_interp failing_network ?s) = Raised ?e"
    by (simp add: sample_defs str_int_1000)
  have h2: "fst (try_body sample_interp failing_network
          (fst (cycle sample_interp failing_network ?s))) = Raised ?e"
    by (simp add: sample_defs str_int_1000)
  from error_cycles_always_notified [OF refl h1 refl h2] h1 h2
  show ?thesis by (intro conjI) simp_all
qed

text \<open>
  C5. When an exception is raised while fetching, validating, extracting the name
  or parsing, the cycle stores that exception as the output of the current report;
  it sends the error notification and adopts the report as the previous one when
  the report differs from the previous report, and sends nothing and keeps the
  previous report otherwise; it leaves the timestamp as it was; and the loop goes
  on with the next cycle from the state so reached.
\<close>

theorem exception_in_cycle:
  assumes "get_api_answer I net (timestamp s) = Inl e \<or>
           get_api_answer I net (timestamp s) = Inr resp \<and>
           (check_response resp = Inl e \<or>
            check_response resp = Inr () \<and>
            py_getitem I resp (ascii ''homeworks'') = Inr (JList (hw # rest)) \<and>
            (py_getitem I hw (ascii ''homework_name'') = Inl e \<or>
             py_getitem I hw (ascii ''homework_name'') = Inr name \<and> parse_status I hw = Inl e))"
  shows "timestamp (fst (cycle I net s)) = timestamp s \<and>
         output (current_report (fst (cycle I net s))) = ErrorObject (objects s) e \<and>
         (if report_eq (current_report (fst (cycle I net s))) (prev_report s)
          then snd (cycle I net s) = [] \<and>
               prev_report (fst (cycle I net s)) = prev_report s
          else snd (cycle I net s) = [error_notice e] \<and>
               prev_report (fst (cycle I net s)) = current_report (fst (cycle I net s))) \<and>
         main_loop I s (net # nets) =
           (fst (main_loop I (fst (cycle I net s)) nets),
            snd (cycle I net s) # snd (main_loop I (fst (cycle I net s)) nets))"
proof -
  have r: "fst (try_body I net s) = Raised e"
  proof (cases I net s rule: try_body_cases)
    case (success resp' hw' rest' name' message d cr)
    with assms show ?thesis by auto
  qed (use assms in \<open>auto\<close>)
  have m: "main_loop I s (net # nets) =
           (fst (main_loop I (fst (cycle I net s)) nets),
            snd (cycle I net s) # snd (main_loop I (fst (cycle I net s)) nets))"
    by (simp add: split_beta Let_def)
  show ?thesis
    using cycle_error(1,2) [OF r] cycle_error(4,5) [OF r] m
    by (simp del: main_loop.simps)
qed

theorem exception_in_cycle_witness:
  "get_api_answer sample_interp failing_network (timestamp (initial_state 1000)) =
     Inl (Exn APIError
       (ascii ''API didn't return correct answer. Error timed out. From date: 1000''))
   \<and>
   timestamp (fst (cycle sample_interp failing_network (initial_state 1000))) =
     timestamp (initial_state 1000)
   \<and>
   output (current_report (fst (cycle sample_interp failing_network (initial_state 1000)))) =
     ErrorObject 0 (Exn APIError
       (ascii ''API didn't return correct answer. Error timed out. From date: 1000''))"
proof -
  let ?e = "Exn APIError
       (ascii ''API didn't return correct answer. Error timed out. From date: 1000'')"
  have g: "get_api_answer sample_interp failing_network (timestamp (initial_state 1000)) = Inl ?e"
    by (simp add: get_api_answer_def failing_network_def initial_state_def py_str_def
        str_int_1000 ascii_def)
  then have "get_api_answer sample_interp failing_network (timestamp (initial_state 1000)) = Inl ?e \<or>
     get_api_answer sample_interp failing_network (timestamp (initial_state 1000)) = Inr JNull \<and>
     (check_response JNull = Inl ?e \<or>
      check_response JNull = Inr () \<and>
      py_getitem sample_interp JNull (ascii ''homeworks'') = Inr (JList (JNull # [])) \<and>
      (py_getitem sample_interp JNull (ascii ''homework_name'') = Inl ?e \<or>
       py_getitem sample_interp JNull (ascii ''homework_name'') = Inr JNull \<and>
       parse_status sample_interp JNull = Inl ?e))"
    by (rule disjI1)
  from exception_in_cycle [OF this, of "[]"]
  have "timestamp (fst (cycle sample_interp failing_network (initial_state 1000))) =
     timestamp (initial_state 1000)"
    and "output (current_report (fst (cycle sample_interp failing_network (initial_state 1000)))) =
     ErrorObject 0 ?e"
    by (simp_all add: initial_state_def)
  with g show ?thesis by (intro conjI)
qed

subsection \<open>Successful cycles\<close>

lemma parse_status_Inr:
  assumes "parse_status I hw = Inr message"
  shows "\<exists>kvs name. hw = JDict kvs \<and> map_of kvs (ascii ''homework_name'') = Some name \<and>
           name \<noteq> JNull"
proof (cases hw)
  case (JDict kvs)
  with assms show ?thesis
    by (cases "map_of kvs (ascii ''homework_name'')")
       (auto simp add: parse_status_def split: if_splits)
qed (use assms in \<open>simp_all add: parse_status_def\<close>)

text \<open>
  C3. In a cycle where the fetch, the validation and the parsing succeed and the
  list of homeworks is not empty, the timestamp becomes the \<open>current_date\<close> of the
  response, whether the cycle sent the message or nothing.
\<close>

theorem successful_cycle_advances_cursor:
  assumes "get_api_answer I net (timestamp s) = Inr resp"
    and "check_response resp = Inr ()"
    and "py_getitem I resp (ascii ''homeworks'') = Inr (JList (hw # rest))"
    and "parse_status I hw = Inr message"
  shows "py_getitem I resp (ascii ''current_date'') = Inr (timestamp (fst (cycle I net s))) \<and>
         (snd (cycle I net s) = [] \<or> snd (cycle I net s) = [message])"
proof -
  from parse_status_Inr [OF assms(4)] obtain kvs name where
    "hw = JDict kvs" "map_of kvs (ascii ''homework_name'') = Some name"
    by blast
  then have n: "py_getitem I hw (ascii ''homework_name'') = Inr name"
    by simp
  show ?thesis
  proof (cases I net s rule: try_body_cases)
    case (success resp' hw' rest' name' message' d cr)
    with assms n show ?thesis
      by (auto simp add: cycle_def)
  qed (use assms n in \<open>simp_all\<close>)
qed

theorem successful_cycle_advances_cursor_witness:
  "get_api_answer sample_interp
     (api_response [sample_homework (JStr (ascii ''hw1'')) (ascii ''reviewing'')] 2000)
     (timestamp (initial_state 1000)) =
     Inr (JDict [(ascii ''homeworks'',
                  JList [sample_homework (JStr (ascii ''hw1'')) (ascii ''reviewing'')]),
                 (ascii ''current_date'', JInt 2000)])
   \<and>
   parse_status sample_interp (sample_homework (JStr (ascii ''hw1'')) (ascii ''reviewing'')) =
     Inr [1048, 1079, 1084, 1077, 1085, 1080, 1083, 1089, 1103, 32, 1089, 1090, 1072,
          1090, 1091, 1089, 32, 1087, 1088, 1086, 1074, 1077, 1088, 1082, 1080, 32,
          1088, 1072, 1073, 1086, 1090, 1099, 32, 34, 104, 119, 49, 34, 46, 32, 1056,
          1072, 1073, 1086, 1090, 1072, 32, 1074, 1079, 1103, 1090, 1072, 32, 1085,
          1072, 32, 1087, 1088, 1086, 1074, 1077, 1088, 1082, 1091, 32, 1088, 1077,
          1074, 1100, 1102, 1077, 1088, 1086, 1084, 46]
   \<and>
   timestamp (fst (cycle sample_interp
     (api_response [sample_homework (JStr (ascii ''hw1'')) (ascii ''reviewing'')] 2000)
     (initial_state 1000))) = JInt 2000"
proof -
  let ?hw = "sample_homework (JStr (ascii ''hw1'')) (ascii ''reviewing'')"
  let ?resp = "JDict [(ascii ''homeworks'', JList [?hw]), (ascii ''current_date'', JInt 2000)]"
  let ?message = "[1048, 1079, 1084, 1077, 1085, 1080, 1083, 1089, 1103, 32, 1089, 1090, 1072,
          1090, 1091, 1089, 32, 1087, 1088, 1086, 1074, 1077, 1088, 1082, 1080, 32,
          1088, 1072, 1073, 1086, 1090, 1099, 32, 34, 104, 119, 49, 34, 46, 32, 1056,
          1072, 1073, 1086, 1090, 1072, 32, 1074, 1079, 1103, 1090, 1072, 32, 1085,
          1072, 32, 1087, 1088, 1086, 1074, 1077, 1088, 1082, 1091, 32, 1088, 1077,
          1074, 1100, 1102, 1077, 1088, 1086, 1084, 46] :: ustring"
  have g: "get_api_answer sample_interp (api_response [?hw] 2000) (timestamp (initial_state 1000)) =
      Inr ?resp"
    by (simp add: get_api_answer_def api_response_def)
  have c: "check_response ?resp = Inr ()"
    by (simp add: check_response_def keys_to_check_def)
  have h: "py_getitem sample_interp ?resp (ascii ''homeworks'') = Inr (JList [?hw])"
    by simp
  have p: "parse_status sample_interp ?hw = Inr ?message"
    by (simp add: parse_status_def sample_homework_def HOMEWORK_VERDICTS_def
        status_changed_text_def py_str_def ascii_def)
  from successful_cycle_advances_cursor [OF g c h p]
  have "timestamp (fst (cycle sample_interp (api_response [?hw] 2000) (initial_state 1000))) =
      JInt 2000"
    by simp
  with g p show ?thesis by (intro conjI)
qed

text \<open>
  C4. In a cycle whose validated response has an empty list of homeworks nothing
  is sent and the state, with the previous report and the timestamp, is as before:
  the next fetch asks for the same timestamp.
\<close>

theorem empty_homeworks_cycle:
  assumes "get_api_answer I net (timestamp s) = Inr resp"
    and "check_response resp = Inr ()"
    and "py_getitem I resp (ascii ''homeworks'') = Inr (JList [])"
  shows "cycle I net s = (s, []) \<and>
         get_api_answer I net' (timestamp (fst (cycle I net s))) =
           get_api_answer I net' (timestamp s)"
proof (cases I net s rule: try_body_cases)
  case (empty resp')
  then show ?thesis by (simp add: cycle_Continued)
qed (use assms in \<open>simp_all\<close>)

theorem empty_homeworks_cycle_witness:
  "get_api_answer sample_interp (api_response [] 2000) (timestamp (initial_state 1000)) =
     Inr (JDict [(ascii ''homeworks'', JList []), (ascii ''current_date'', JInt 2000)])
   \<and>
   check_response (JDict [(ascii ''homeworks'', JList []), (ascii ''current_date'', JInt 2000)]) =
     Inr ()
   \<and>
   cycle sample_interp (api_response [] 2000) (initial_state 1000) = (initial_state 1000, [])"
proof -
  let ?resp = "JDict [(ascii ''homeworks'', JList []), (ascii ''current_date'', JInt 2000)]"
  have g: "get_api_answer sample_interp (api_response [] 2000) (timestamp (initial_state 1000)) =
      Inr ?resp"
    by (simp add: get_api_answer_def api_response_def)
  have c: "check_response ?resp = Inr ()"
    by (simp add: check_response_def keys_to_check_def)
  have h: "py_getitem sample_interp ?resp (ascii ''homeworks'') = Inr (JList [])"
    by simp
  from empty_homeworks_cycle [OF g c h, of failing_network]
  have "cycle sample_interp (api_response [] 2000) (initial_state 1000) = (initial_state 1000, [])"
    by simp
  with g c show ?thesis by (intro conjI)
qed

text \<open>
  The example of the specification: from the timestamp 1000, with the homework
  \<open>hw1\<close> in review and the date 2000, the cycle sends the message for \<open>hw1\<close> and
  moves the timestamp to 2000.
\<close>

lemma first_cycle_example:
  "cycle sample_interp
     (api_response [sample_homework (JStr (ascii ''hw1'')) (ascii ''reviewing'')] 2000)
     (initial_state 1000) =
   (\<lparr>timestamp = JInt 2000,
     current_report =
       \<lparr>homework = JStr (ascii ''hw1''),
        output = Message
          (status_changed_text @ ascii ''hw1\". '' @
           [1056, 1072, 1073, 1086, 1090, 1072, 32, 1074, 1079, 1103, 1090, 1072, 32,
            1085, 1072, 32, 1087, 1088, 1086, 1074, 1077, 1088, 1082, 1091, 32, 1088,
            1077, 1074, 1100, 1102, 1077, 1088, 1086, 1084, 46])\<rparr>,
     prev_report =
       \<lparr>homework = JStr (ascii ''hw1''),
        output = Message
          (status_changed_text @ ascii ''hw1\". '' @
           [1056, 1072, 1073, 1086, 1090, 1072, 32, 1074, 1079, 1103, 1090, 1072, 32,
            1085, 1072, 32, 1087, 1088, 1086, 1074, 1077, 1088, 1082, 1091, 32, 1088,
            1077, 1074, 1100, 1102, 1077, 1088, 1086, 1084, 46])\<rparr>,
     objects = 0\<rparr>,
    [status_changed_text @ ascii ''hw1\". '' @
     [1056, 1072, 1073, 1086, 1090, 1072, 32, 1074, 1079, 1103, 1090, 1072, 32,
      1085, 1072, 32, 1087, 1088, 1086, 1074, 1077, 1088, 1082, 1091, 32, 1088,
      1077, 1074, 1100, 1102, 1077, 1088, 1086, 1084, 46]])"
  by (simp add: sample_defs)

subsection \<open>A homework without a name\<close>

lemma get_api_answer_Inl:
  "get_api_answer I net ts = Inl (Exn c text) \<Longrightarrow> c = APIError \<or> c = JSONDecodeError"
  by (auto simp add: get_api_answer_def split: http_result.splits if_splits sum.splits)

lemma check_response_Inl:
  assumes "check_response resp = Inl (Exn c text)"
  shows "c = TypeError \<or> c = APIKeyError"
proof (cases resp)
  case (JDict kvs)
  with assms show ?thesis
    by (auto simp add: check_response_def keys_to_check_def split: if_splits)
qed (use assms in \<open>simp_all add: check_response_def\<close>)

lemma py_getitem_Inl:
  "py_getitem I v key = Inl (Exn c text) \<Longrightarrow> c = KeyError \<or> c = TypeError"
  by (cases v) (auto split: option.splits)

lemma parse_status_name_error:
  assumes "py_getitem I hw (ascii ''homework_name'') = Inr name"
  shows "parse_status I hw = Inl (Exn HomeworkNameNotFoundError text) \<longleftrightarrow>
           name = JNull \<and> text = ascii ''Key \"homework_name\" not found in this homework''"
proof (cases hw)
  case (JDict kvs)
  with assms have n: "map_of kvs (ascii ''homework_name'') = Some name"
    by (simp split: option.splits)
  show ?thesis
  proof (cases "name = JNull")
    case True
    with JDict n show ?thesis by (auto simp add: parse_status_def)
  next
    case False
    let ?st = "case map_of kvs (ascii ''status'') of None \<Rightarrow> JNull | Some x \<Rightarrow> x"
    have "parse_status I hw \<noteq> Inl (Exn HomeworkNameNotFoundError text)"
      using JDict n False
      by (cases ?st) (auto simp add: parse_status_def split: if_splits option.splits sum.splits)
    with False show ?thesis by simp
  qed
qed (use assms in \<open>simp_all\<close>)

text \<open>
  C10, as stated, fails: the name error of \<open>parse_status\<close> is reached from the
  loop, by a first homework whose \<open>homework_name\<close> is there with the value \<open>None\<close>,
  and it is the error the loop reports then.
\<close>

theorem name_error_reached_counterexample:
  "fst (try_body sample_interp
          (api_response [sample_homework JNull (ascii ''approved'')] 2000) (initial_state 1000)) =
     Raised (Exn HomeworkNameNotFoundError
       (ascii ''Key \"homework_name\" not found in this homework''))
   \<and>
   snd (cycle sample_interp
          (api_response [sample_homework JNull (ascii ''approved'')] 2000) (initial_state 1000)) =
     [error_notice (Exn HomeworkNameNotFoundError
        (ascii ''Key \"homework_name\" not found in this homework''))]"
  by (simp add: sample_defs)

text \<open>
  C10, amended. When the first homework is a \<open>dict\<close> without the key
  \<open>homework_name\<close>, the \<open>try\<close> block raises the \<open>KeyError\<close> of
  \<open>homework['homework_name']\<close> before the report gets a name and before
  \<open>parse_status\<close> is called, and the cycle reports that \<open>KeyError\<close>. The name error
  of \<open>parse_status\<close> is raised in the loop exactly when the first homework has the
  key \<open>homework_name\<close> with the value \<open>None\<close>, and then it is the error the cycle
  reports.
\<close>

theorem nameless_homework_error:
  "(get_api_answer I net (timestamp s) = Inr resp \<and> check_response resp = Inr () \<and>
    py_getitem I resp (ascii ''homeworks'') = Inr (JList (JDict kvs # rest)) \<and>
    map_of kvs (ascii ''homework_name'') = None \<longrightarrow>
      fst (try_body I net s) = Raised (Exn KeyError (repr_str I (ascii ''homework_name''))) \<and>
      homework (current_report (fst (cycle I net s))) = homework (current_report s) \<and>
      output (current_report (fst (cycle I net s))) =
        ErrorObject (objects s) (Exn KeyError (repr_str I (ascii ''homework_name''))))
   \<and>
   (fst (try_body I net s) = Raised (Exn HomeworkNameNotFoundError text) \<longleftrightarrow>
      (\<exists>resp kvs rest.
         get_api_answer I net (timestamp s) = Inr resp \<and> check_response resp = Inr () \<and>
         py_getitem I resp (ascii ''homeworks'') = Inr (JList (JDict kvs # rest)) \<and>
         map_of kvs (ascii ''homework_name'') = Some JNull \<and>
         text = ascii ''Key \"homework_name\" not found in this homework''))
   \<and>
   (fst (try_body I net s) = Raised (Exn HomeworkNameNotFoundError text) \<longrightarrow>
      output (current_report (fst (cycle I net s))) =
        ErrorObject (objects s) (Exn HomeworkNameNotFoundError text))"
proof -
  have key_error: "get_api_answer I net (timestamp s) = Inr resp \<and> check_response resp = Inr () \<and>
    py_getitem I resp (ascii ''homeworks'') = Inr (JList (JDict kvs # rest)) \<and>
    map_of kvs (ascii ''homework_name'') = None \<longrightarrow>
      fst (try_body I net s) = Raised (Exn KeyError (repr_str I (ascii ''homework_name''))) \<and>
      homework (current_report (fst (cycle I net s))) = homework (current_report s) \<and>
      output (current_report (fst (cycle I net s))) =
        ErrorObject (objects s) (Exn KeyError (repr_str I (ascii ''homework_name'')))"
  proof
    assume a: "get_api_answer I net (timestamp s) = Inr resp \<and> check_response resp = Inr () \<and>
      py_getitem I resp (ascii ''homeworks'') = Inr (JList (JDict kvs # rest)) \<and>
      map_of kvs (ascii ''homework_name'') = None"
    then have k: "py_getitem I (JDict kvs) (ascii ''homework_name'') =
        Inl (Exn KeyError (repr_str I (ascii ''homework_name'')))"
      by simp
    have tb: "try_body I net s = (Raised (Exn KeyError (repr_str I (ascii ''homework_name''))), s, [])"
    proof (cases I net s rule: try_body_cases)
      case (extract_error resp' hw' rest' e)
      with a k show ?thesis by auto
    qed (use a k in \<open>simp_all\<close>)
    then have r: "fst (try_body I net s) = Raised (Exn KeyError (repr_str I (ascii ''homework_name'')))"
      by simp
    have "homework (current_report (fst (cycle I net s))) = homework (current_report s)"
      by (simp add: cycle_Raised [OF tb] except_block_state Let_def)
    with r cycle_error(2) [OF r] show
      "fst (try_body I net s) = Raised (Exn KeyError (repr_str I (ascii ''homework_name''))) \<and>
       homework (current_report (fst (cycle I net s))) = homework (current_report s) \<and>
       output (current_report (fst (cycle I net s))) =
         ErrorObject (objects s) (Exn KeyError (repr_str I (ascii ''homework_name'')))"
      by simp
  qed
  let ?msg = "ascii ''Key \"homework_name\" not found in this homework''"
  have name_error: "fst (try_body I net s) = Raised (Exn HomeworkNameNotFoundError text) \<longleftrightarrow>
      (\<exists>resp kvs rest.
         get_api_answer I net (timestamp s) = Inr resp \<and> check_response resp = Inr () \<and>
         py_getitem I resp (ascii ''homeworks'') = Inr (JList (JDict kvs # rest)) \<and>
         map_of kvs (ascii ''homework_name'') = Some JNull \<and> text = ?msg)"
    (is "?L \<longleftrightarrow> ?R")
  proof (cases I net s rule: try_body_cases)
    case (fetch_error e)
    then show ?thesis by (auto dest: get_api_answer_Inl)
  next
    case (check_error resp e)
    then show ?thesis by (auto dest: check_response_Inl)
  next
    case (empty resp)
    then show ?thesis by auto
  next
    case (extract_error resp hw rest e)
    then have "\<not> ?L" by (auto dest: py_getitem_Inl)
    moreover have "\<not> ?R"
      using extract_error by (auto split: option.splits)
    ultimately show ?thesis by simp
  next
    case (parse_error resp hw rest name e)
    note pe = this
    from pe(4) obtain kvs where hw: "hw = JDict kvs"
      and n: "map_of kvs (ascii ''homework_name'') = Some name"
      by (cases hw) (auto split: option.splits)
    have "?L \<longleftrightarrow> parse_status I hw = Inl (Exn HomeworkNameNotFoundError text)"
      using pe by auto
    also have "\<dots> \<longleftrightarrow> name = JNull \<and> text = ?msg"
      by (rule parse_status_name_error [OF pe(4)])
    also have "\<dots> \<longleftrightarrow> ?R"
      using pe(1,2,3) hw n by auto
    finally show ?thesis .
  next
    case (success resp hw rest name message d cr)
    note su = this
    have "\<not> ?L" using su by (simp split: if_splits)
    moreover have "\<not> ?R"
    proof
      assume ?R
      with su(1,3) have "py_getitem I hw (ascii ''homework_name'') = Inr JNull"
        by auto
      with su(4) have "name = JNull" by simp
      with parse_status_name_error [OF su(4), of ?msg] su(5) show False by simp
    qed
    ultimately show ?thesis by simp
  qed
have reported: "fst (try_body I net s) = Raised (Exn HomeworkNameNotFoundError text) \<longrightarrow>
      output (current_report (fst (cycle I net s))) =
        ErrorObject (objects s) (Exn HomeworkNameNotFoundError text)"
    by (simp add: cycle_error(2))
  show ?thesis
    by (rule conjI [OF key_error conjI [OF name_error reported]])
qed

theorem nameless_homework_error_witness:
  "fst (try_body sample_interp
          (api_response [JDict [(ascii ''status'', JStr (ascii ''approved''))]] 2000)
          (initial_state 1000)) =
     Raised (Exn KeyError (quoted (ascii ''homework_name'')))
   \<and>
   fst (try_body sample_interp
          (api_response [sample_homework JNull (ascii ''approved'')] 2000) (initial_state 1000)) =
     Raised (Exn HomeworkNameNotFoundError
       (ascii ''Key \"homework_name\" not found in this homework''))"
proof -
  let ?kvs = "[(ascii ''status'', JStr (ascii ''approved''))]"
  let ?resp = "JDict [(ascii ''homeworks'', JList [JDict ?kvs]), (ascii ''current_date'', JInt 2000)]"
  let ?net = "api_response [JDict ?kvs] 2000"
  have g: "get_api_answer sample_interp ?net (timestamp (initial_state 1000)) = Inr ?resp"
    by (simp add: get_api_answer_def api_response_def)
  have c: "check_response ?resp = Inr ()"
    by (simp add: check_response_def keys_to_check_def)
  have h: "py_getitem sample_interp ?resp (ascii ''homeworks'') = Inr (JList (JDict ?kvs # []))"
    by simp
  have m: "map_of ?kvs (ascii ''homework_name'') = None"
    by (simp add: ascii_def)
  from nameless_homework_error [of sample_interp ?net "initial_state 1000" ?resp ?kvs "[]"] g c h m
  have a: "fst (try_body sample_interp ?net (initial_state 1000)) =
      Raised (Exn KeyError (quoted (ascii ''homework_name'')))"
    by (simp add: sample_interp_def)
  let ?kvs' = "[(ascii ''homework_name'', JNull), (ascii ''status'', JStr (ascii ''approved''))]"
  let ?resp' = "JDict [(ascii ''homeworks'', JList [JDict ?kvs']), (ascii ''current_date'', JInt 2000)]"
  let ?net' = "api_response [sample_homework JNull (ascii ''approved'')] 2000"
  have g': "get_api_answer sample_interp ?net' (timestamp (initial_state 1000)) = Inr ?resp'"
    by (simp add: get_api_answer_def api_response_def sample_homework_def)
  have c': "check_response ?resp' = Inr ()"
    by (simp add: check_response_def keys_to_check_def)
  have h': "py_getitem sample_interp ?resp' (ascii ''homeworks'') = Inr (JList (JDict ?kvs' # []))"
    by simp
  have m': "map_of ?kvs' (ascii ''homework_name'') = Some JNull"
    by simp
  from g' c' h' m' have
    "\<exists>resp kvs rest.
       get_api_answer sample_interp ?net' (timestamp (initial_state 1000)) = Inr resp \<and>
       check_response resp = Inr () \<and>
       py_getitem sample_interp resp (ascii ''homeworks'') = Inr (JList (JDict kvs # rest)) \<and>
       map_of kvs (ascii ''homework_name'') = Some JNull \<and>
       ascii ''Key \"homework_name\" not found in this homework'' =
         ascii ''Key \"homework_name\" not found in this homework''"
    by blast
  with nameless_homework_error [of sample_interp ?net' "initial_state 1000" _ _ _
      "ascii ''Key \"homework_name\" not found in this homework''"]
  have b: "fst (try_body sample_interp ?net' (initial_state 1000)) =
     Raised (Exn HomeworkNameNotFoundError
       (ascii ''Key \"homework_name\" not found in this homework''))"
    by blast
  from a b show ?thesis by (intro conjI)
qed

end
